theory Spec2Isabelle
  imports Main "HOL-Library.Word" "HOL-Library.Sublist"
begin

section \<open>The lobby script of ascii-bomb-ecs-mp (web/index.js)\<close>

text \<open>
  The page script reads the lobby form, validates it, and hands the settings to the
  WebAssembly module through \<^verbatim>\<open>start_game\<close>; \<^verbatim>\<open>start_wasm\<close> loads the module and
  calls \<^verbatim>\<open>run\<close>. The model follows the script line by line: the form and the page are
  records, every \<^verbatim>\<open>alert\<close>, \<^verbatim>\<open>console\<close> call and call into the module is appended to
  a log in the browser state, and a \<^verbatim>\<open>TypeError\<close> raised by the script itself (a
  property read on \<^verbatim>\<open>null\<close> or \<^verbatim>\<open>undefined\<close>) is a value returned next to the state.
\<close>

subsection \<open>JavaScript strings and numbers\<close>

text \<open>
  A JavaScript string is a sequence of UTF-16 code units. \<^verbatim>\<open>js\<close> embeds the ASCII
  literals of the script.
\<close>

type_synonym code_unit = "16 word"
type_synonym jsstring = "code_unit list"

definition js :: "string \<Rightarrow> jsstring" where
  "js s = map of_char s"

text \<open>
  White space as \<^verbatim>\<open>String.prototype.trim\<close> and \<^verbatim>\<open>parseInt\<close> strip it: the WhiteSpace
  code points (TAB, VT, FF, ZWNBSP and the space separators) and the LineTerminator code
  points (LF, CR, LS, PS) of ECMAScript.
\<close>

definition isWhiteSpace :: "code_unit \<Rightarrow> bool" where
  "isWhiteSpace c \<longleftrightarrow>
     c = 0x0009 \<or> c = 0x000B \<or> c = 0x000C \<or> c = 0xFEFF \<or>
     c = 0x0020 \<or> c = 0x00A0 \<or> c = 0x1680 \<or> (0x2000 \<le> c \<and> c \<le> 0x200A) \<or>
     c = 0x202F \<or> c = 0x205F \<or> c = 0x3000 \<or>
     c = 0x000A \<or> c = 0x000D \<or> c = 0x2028 \<or> c = 0x2029"

definition trimStart :: "jsstring \<Rightarrow> jsstring" where
  "trimStart s = dropWhile isWhiteSpace s"

definition trim :: "jsstring \<Rightarrow> jsstring" where
  "trim s = rev (dropWhile isWhiteSpace (rev (dropWhile isWhiteSpace s)))"

text \<open>\<^verbatim>\<open>s.includes(t)\<close>: \<open>t\<close> occurs in \<open>s\<close> as a contiguous run of code units.\<close>

fun js_includes :: "jsstring \<Rightarrow> jsstring \<Rightarrow> bool" where
  "js_includes [] t \<longleftrightarrow> t = []"
| "js_includes (c # s) t \<longleftrightarrow> prefix t (c # s) \<or> js_includes s t"

text \<open>
  A Number is NaN or a numeric value. The only Numbers the script makes are results of
  \<^verbatim>\<open>parseInt\<close>, so a numeric value is kept as the integer that was read. (The double
  that JavaScript stores is that integer rounded; rounding is monotone and exact on small
  integers, so neither the comparisons with 2 and 8 nor a value that passes them is
  affected.)
\<close>

datatype jsnumber = NaN | Num int

text \<open>The relational operators \<^verbatim>\<open><\<close> and \<^verbatim>\<open>>\<close>: false as soon as an operand is NaN.\<close>

fun js_lt :: "jsnumber \<Rightarrow> jsnumber \<Rightarrow> bool" where
  "js_lt (Num a) (Num b) \<longleftrightarrow> a < b"
| "js_lt _ _ \<longleftrightarrow> False"

fun js_gt :: "jsnumber \<Rightarrow> jsnumber \<Rightarrow> bool" where
  "js_gt (Num a) (Num b) \<longleftrightarrow> a > b"
| "js_gt _ _ \<longleftrightarrow> False"

text \<open>
  \<^verbatim>\<open>parseInt(string)\<close> with no radix: strip leading white space, read a sign, switch to
  radix 16 after \<^verbatim>\<open>0x\<close> or \<^verbatim>\<open>0X\<close>, read the longest run of digits of the radix; NaN when
  that run is empty. (The zero read after a minus sign is \<^verbatim>\<open>-0\<close> in JavaScript; it
  compares as 0 does.)
\<close>

definition digit_value :: "code_unit \<Rightarrow> nat option" where
  "digit_value c =
     (if 0x30 \<le> c \<and> c \<le> 0x39 then Some (unat c - 0x30)
      else if 0x61 \<le> c \<and> c \<le> 0x7A then Some (unat c - 0x61 + 10)
      else if 0x41 \<le> c \<and> c \<le> 0x5A then Some (unat c - 0x41 + 10)
      else None)"

definition radix_digit :: "nat \<Rightarrow> code_unit \<Rightarrow> bool" where
  "radix_digit R c = (case digit_value c of None \<Rightarrow> False | Some d \<Rightarrow> d < R)"

fun mathInt :: "nat \<Rightarrow> nat \<Rightarrow> jsstring \<Rightarrow> nat" where
  "mathInt R acc [] = acc"
| "mathInt R acc (c # cs) = mathInt R (acc * R + (case digit_value c of Some d \<Rightarrow> d | None \<Rightarrow> 0)) cs"

definition parseInt :: "jsstring \<Rightarrow> jsnumber" where
  "parseInt string =
     (let S = trimStart string;
          sign = (case S of c # _ \<Rightarrow> if c = 0x2D then - 1 else 1 | [] \<Rightarrow> (1::int));
          S = (case S of c # rest \<Rightarrow> if c = 0x2B \<or> c = 0x2D then rest else S | [] \<Rightarrow> S);
          hex = (take 2 S = js ''0x'' \<or> take 2 S = js ''0X'');
          R = (if hex then 16 else 10);
          S = (if hex then drop 2 S else S);
          Z = takeWhile (radix_digit R) S
      in if Z = [] then NaN else Num (sign * int (mathInt R 0 Z)))"

text \<open>
  The regular expression \<^verbatim>\<open>/^([0-9]{4})$/\<close> has no flags, so \<^verbatim>\<open>^\<close> and \<^verbatim>\<open>$\<close> match only
  at the two ends of the input: \<^verbatim>\<open>test\<close> accepts exactly the strings of four code
  units in \<^verbatim>\<open>0\<close>..\<^verbatim>\<open>9\<close>.
\<close>

definition isDecimalDigit :: "code_unit \<Rightarrow> bool" where
  "isDecimalDigit c \<longleftrightarrow> 0x30 \<le> c \<and> c \<le> 0x39"

definition room_id_regex_test :: "jsstring \<Rightarrow> bool" where
  "room_id_regex_test s \<longleftrightarrow> length s = 4 \<and> list_all isDecimalDigit s"

subsection \<open>The page\<close>

text \<open>
  The lobby form of index.html. All of its inputs are children of the element
  \<^verbatim>\<open>button-box\<close>: \<^verbatim>\<open>value\<close> of the text and number inputs, \<^verbatim>\<open>checked\<close> of the boxes.
\<close>

record form =
  numberInput :: jsstring
  roomID :: jsstring
  customMatchboxServerCheckbox :: bool
  matchboxServerURL :: jsstring
  customICEServerCheckbox :: bool
  iceServerURL :: jsstring
  iceServerUsername :: jsstring
  iceServerCredential :: jsstring

text \<open>
  What \<^verbatim>\<open>run()\<close> can throw, by what line 12, \<^verbatim>\<open>e.message.includes(..)\<close>, does with
  it. \<^verbatim>\<open>catch (e)\<close> binds any value:
  \<^item> \<open>Error_object m\<close>: an object whose \<^verbatim>\<open>message\<close> is the string \<open>m\<close> (an \<^verbatim>\<open>Error\<close>, a
    \<^verbatim>\<open>WebAssembly.RuntimeError\<close>, a \<^verbatim>\<open>DOMException\<close>); \<^verbatim>\<open>includes\<close> is the substring test.
  \<^item> \<open>Message_answers r\<close>: an object whose \<^verbatim>\<open>message\<close> is not a string but has an
    \<^verbatim>\<open>includes\<close> method of its own (an array, say), which answers \<open>r\<close>.
  \<^item> \<open>No_message\<close>: \<^verbatim>\<open>null\<close>, \<^verbatim>\<open>undefined\<close>, a thrown string or number, or an object
    whose \<^verbatim>\<open>message\<close> is missing or has no \<^verbatim>\<open>includes\<close> method; evaluating line 12
    throws a \<^verbatim>\<open>TypeError\<close>.
\<close>

datatype thrown = Error_object jsstring | Message_answers bool | No_message

fun message_includes :: "thrown \<Rightarrow> jsstring \<Rightarrow> bool option" where
  "message_includes (Error_object m) t = Some (js_includes m t)"
| "message_includes (Message_answers r) t = Some r"
| "message_includes No_message t = None"

datatype jsvalue = VNum jsnumber | VStr jsstring

text \<open>
  What the script can see and change. \<open>button_box\<close> is \<open>None\<close> once the element has
  been removed from the document (its inputs go with it); \<open>controls\<close> and the fullscreen
  button inside it are in the document only while \<open>game_container\<close> is. The three logs
  record the calls of \<^verbatim>\<open>alert\<close>, \<^verbatim>\<open>console.log\<close> (the literal and the value appended to
  it) and \<^verbatim>\<open>console.error\<close>; \<open>start_game_calls\<close> records the argument list of each call
  of the module's \<^verbatim>\<open>start_game\<close>.
\<close>

record browser =
  wasm_loaded :: bool
  button_box :: "form option"
  game_container :: bool
  game_container_hidden :: bool
  controls :: bool
  button_fullscreen_grey :: bool
  error_screen_hidden :: bool
  canvas_focused :: bool
  fullscreen_requests :: nat
  alerts :: "jsstring list"
  console_log :: "(jsstring \<times> jsvalue) list"
  console_error :: "thrown list"
  start_game_calls :: "jsvalue list list"

text \<open>The device: what \<^verbatim>\<open>isTouchDevice\<close> and the fullscreen API of the document answer.\<close>

record device =
  isTouchDevice :: bool
  fullscreenEnabled :: bool
  has_requestFullscreen :: bool
  has_webkitRequestFullscreen :: bool
  has_msRequestFullscreen :: bool

datatype script_error = TypeError

subsection \<open>start_wasm (index.js, lines 4 to 19)\<close>

definition benign_message :: jsstring where
  "benign_message = js ''This isn't actually an error!''"

text \<open>
  The function from the point where \<^verbatim>\<open>await init()\<close> has resolved.
  \<open>run_raises\<close> is what the call \<^verbatim>\<open>run()\<close> of the module does: \<open>None\<close> when it returns,
  \<open>Some e\<close> when it throws \<open>e\<close>. An exception thrown inside the handler leaves it.
  \<^verbatim>\<open>document.getElementById(..)\<close> is \<^verbatim>\<open>null\<close> for an element that is not in the
  document, and calling \<^verbatim>\<open>remove\<close> on it throws.
\<close>

definition start_wasm :: "thrown option \<Rightarrow> browser \<Rightarrow> script_error option \<times> browser" where
  "start_wasm run_raises b =
     (let b = b\<lparr>wasm_loaded := True\<rparr> in
      case run_raises of
        None \<Rightarrow> (None, b)
      | Some e \<Rightarrow>
          (case message_includes e benign_message of
             None \<Rightarrow> (Some TypeError, b)
           | Some found \<Rightarrow>
               if \<not> found then
                 (let b = b\<lparr>console_error := console_error b @ [e]\<rparr> in
                  if button_box b = None then (Some TypeError, b)
                  else
                    (let b = b\<lparr>button_box := None\<rparr> in
                     if \<not> game_container b then (Some TypeError, b)
                     else
                       (let b = b\<lparr>game_container := False, controls := False\<rparr> in
                        (None, b\<lparr>error_screen_hidden := False\<rparr>))))
               else (None, b)))"

subsection \<open>startGame (index.js, lines 148 to 239)\<close>

text \<open>The local variables of \<^verbatim>\<open>startGame\<close>, as lines 149 to 156 initialise them.\<close>

record locals =
  number_of_players :: jsnumber
  room_id :: jsstring
  use_custom_matchbox_server_settings :: bool
  matchbox_server_url :: jsstring
  use_custom_ice_server_settings :: bool
  ice_server_url :: jsstring
  turn_server_username :: jsstring
  turn_server_credential :: jsstring

definition read_inputs :: "form \<Rightarrow> locals" where
  "read_inputs f =
     \<lparr>number_of_players = parseInt (numberInput f),
      room_id = roomID f,
      use_custom_matchbox_server_settings = customMatchboxServerCheckbox f,
      matchbox_server_url = js '''',
      use_custom_ice_server_settings = customICEServerCheckbox f,
      ice_server_url = js '''',
      turn_server_username = js '''',
      turn_server_credential = js ''''\<rparr>"

text \<open>
  The four checks, lines 158 to 193. Each either alerts and returns (\<open>Inl\<close> of the
  message) or goes on with the locals as it leaves them (\<open>Inr\<close>).
\<close>

definition check_player_count :: "locals \<Rightarrow> jsstring + locals" where
  "check_player_count v =
     (if js_lt (number_of_players v) (Num 2) \<or> js_gt (number_of_players v) (Num 8)
      then Inl (js ''Please enter a player count between 2 and 8.'')
      else Inr v)"

definition check_room_id :: "locals \<Rightarrow> jsstring + locals" where
  "check_room_id v =
     (if trim (room_id v) \<noteq> js '''' then
        (if \<not> room_id_regex_test (room_id v) then Inl (js ''Invalid room ID.'')
         else Inr v)
      else Inr (v\<lparr>room_id := js ''quick_join''\<rparr>))"

definition check_matchbox :: "form \<Rightarrow> locals \<Rightarrow> jsstring + locals" where
  "check_matchbox f v =
     (if use_custom_matchbox_server_settings v then
        (let v = v\<lparr>matchbox_server_url := matchboxServerURL f\<rparr> in
         if trim (matchbox_server_url v) = js '''' then
           Inl (js ''Please enter a Matchbox server URL.'')
         else Inr v)
      else Inr v)"

definition check_ice :: "form \<Rightarrow> locals \<Rightarrow> jsstring + locals" where
  "check_ice f v =
     (if use_custom_ice_server_settings v then
        (let v = v\<lparr>ice_server_url := iceServerURL f,
                    turn_server_username := iceServerUsername f,
                    turn_server_credential := iceServerCredential f\<rparr> in
         if trim (ice_server_url v) = js '''' then
           Inl (js ''Please enter a STUN/TURN server URL.'')
         else Inr v)
      else Inr v)"

definition validate :: "form \<Rightarrow> jsstring + locals" where
  "validate f =
     (case check_player_count (read_inputs f) of
        Inl m \<Rightarrow> Inl m
      | Inr v \<Rightarrow>
          (case check_room_id v of
             Inl m \<Rightarrow> Inl m
           | Inr v \<Rightarrow>
               (case check_matchbox f v of
                  Inl m \<Rightarrow> Inl m
                | Inr v \<Rightarrow> check_ice f v)))"

text \<open>Lines 195 to 204: the settings go to the console.\<close>

definition log_settings :: "locals \<Rightarrow> browser \<Rightarrow> browser" where
  "log_settings v b =
     (let b = b\<lparr>console_log := console_log b @
                 [(js ''Number of players: '', VNum (number_of_players v)),
                  (js ''Room ID: '', VStr (room_id v))]\<rparr>;
          b = (if use_custom_matchbox_server_settings v
               then b\<lparr>console_log := console_log b @
                        [(js ''Matchbox server URL: '', VStr (matchbox_server_url v))]\<rparr>
               else b)
      in if use_custom_ice_server_settings v
         then b\<lparr>console_log := console_log b @
                  [(js ''STUN/TURN server URL: '', VStr (ice_server_url v)),
                   (js ''TURN server username: '', VStr (turn_server_username v)),
                   (js ''TURN server credential: '', VStr (turn_server_credential v))]\<rparr>
         else b)"

text \<open>The argument list of the call on line 238.\<close>

definition start_game_args :: "locals \<Rightarrow> jsvalue list" where
  "start_game_args v =
     [VNum (number_of_players v), VStr (room_id v), VStr (matchbox_server_url v),
      VStr (ice_server_url v), VStr (turn_server_username v),
      VStr (turn_server_credential v)]"

text \<open>
  Lines 235 to 238. \<^verbatim>\<open>updateCanvasContainerSize\<close> writes style properties of the canvas
  and its containers and three script variables of its own; nothing of the browser
  state above depends on them. The call of \<^verbatim>\<open>start_game\<close> is recorded with its
  arguments; what the module does with them is not part of the script.
\<close>

definition enter_game :: "locals \<Rightarrow> browser \<Rightarrow> script_error option \<times> browser" where
  "enter_game v b =
     (let b = b\<lparr>canvas_focused := True\<rparr> in
      (None, b\<lparr>start_game_calls := start_game_calls b @ [start_game_args v]\<rparr>))"

text \<open>Lines 195 to 238: what \<^verbatim>\<open>startGame\<close> does once the four checks have passed.\<close>

definition launch :: "device \<Rightarrow> locals \<Rightarrow> browser \<Rightarrow> script_error option \<times> browser" where
  "launch d v b =
     (let b = log_settings v b in
      if button_box b = None then (Some TypeError, b)
      else
        (let b = b\<lparr>button_box := None\<rparr> in
         if \<not> game_container b then (Some TypeError, b)
         else
           (let b = b\<lparr>game_container_hidden := False\<rparr> in
            if isTouchDevice d then
              (if fullscreenEnabled d then
                 (if has_requestFullscreen d \<or> has_webkitRequestFullscreen d
                       \<or> has_msRequestFullscreen d
                  then enter_game v (b\<lparr>fullscreen_requests := fullscreen_requests b + 1\<rparr>)
                  else enter_game v b)
               else
                 (if \<not> controls b then (Some TypeError, b)
                  else enter_game v (b\<lparr>button_fullscreen_grey := True\<rparr>)))
            else
              (if \<not> controls b then (Some TypeError, b)
               else enter_game v (b\<lparr>controls := False\<rparr>)))))"

text \<open>
  \<^verbatim>\<open>startGame\<close>. Line 149 reads an input of the form; with the form out of the
  document, \<^verbatim>\<open>getElementById\<close> is \<^verbatim>\<open>null\<close> and the read throws.
\<close>

definition startGame :: "device \<Rightarrow> browser \<Rightarrow> script_error option \<times> browser" where
  "startGame d b =
     (case button_box b of
        None \<Rightarrow> (Some TypeError, b)
      | Some f \<Rightarrow>
          (case validate f of
             Inl m \<Rightarrow> (None, b\<lparr>alerts := alerts b @ [m]\<rparr>)
           | Inr v \<Rightarrow> launch d v b))"

text \<open>The page as index.html describes it, before any script has run.\<close>

definition initial_page :: "form \<Rightarrow> browser" where
  "initial_page f =
     \<lparr>wasm_loaded = False, button_box = Some f, game_container = True,
      game_container_hidden = True, controls = True, button_fullscreen_grey = False,
      error_screen_hidden = True, canvas_focused = False, fullscreen_requests = 0,
      alerts = [], console_log = [], console_error = [], start_game_calls = []\<rparr>"

subsection \<open>The declaration of start_game (ascii_bomb_ecs_lib.d.ts)\<close>

datatype ts_type = TS_number | TS_string

text \<open>
  \<^verbatim>\<open>export function start_game(signal_server_address: string, number_of_players: number): void;\<close>
\<close>

definition start_game_declared :: "(string \<times> ts_type) list" where
  "start_game_declared =
     [(''signal_server_address'', TS_string), (''number_of_players'', TS_number)]"

fun type_of_value :: "jsvalue \<Rightarrow> ts_type" where
  "type_of_value (VNum _) = TS_number"
| "type_of_value (VStr _) = TS_string"

text \<open>A call agrees with the declaration when its arguments have the declared types, one by one.\<close>

definition call_matches_declaration :: "jsvalue list \<Rightarrow> bool" where
  "call_matches_declaration args \<longleftrightarrow> map type_of_value args = map snd start_game_declared"

subsection \<open>Concrete pages and devices\<close>

text \<open>The form as index.html ships it: two players, every text input empty, no box ticked.\<close>

definition default_form :: form where
  "default_form =
     \<lparr>numberInput = js ''2'', roomID = js '''', customMatchboxServerCheckbox = False,
      matchboxServerURL = js '''', customICEServerCheckbox = False, iceServerURL = js '''',
      iceServerUsername = js '''', iceServerCredential = js ''''\<rparr>"

text \<open>A desktop browser: no touch events, the standard fullscreen API.\<close>

definition desktop :: device where
  "desktop =
     \<lparr>isTouchDevice = False, fullscreenEnabled = True, has_requestFullscreen = True,
      has_webkitRequestFullscreen = False, has_msRequestFullscreen = False\<rparr>"

text \<open>
  A form with every field wrong at once: one player, a room id with a letter in it, both
  boxes ticked with a blank URL each.
\<close>

definition all_invalid_form :: form where
  "all_invalid_form =
     \<lparr>numberInput = js ''1'', roomID = js ''12a4'', customMatchboxServerCheckbox = True,
      matchboxServerURL = js ''  '', customICEServerCheckbox = True, iceServerURL = js '''',
      iceServerUsername = js ''user'', iceServerCredential = js ''secret''\<rparr>"

text \<open>Both boxes ticked, each URL typed with a space before and after it.\<close>

definition padded_urls_form :: form where
  "padded_urls_form =
     \<lparr>numberInput = js ''4'', roomID = js ''0042'', customMatchboxServerCheckbox = True,
      matchboxServerURL = js '' wss://match.example.org '', customICEServerCheckbox = True,
      iceServerURL = js '' turn:relay.example.org:3478 '',
      iceServerUsername = js '''', iceServerCredential = js ''''\<rparr>"

text \<open>Both boxes unticked again, with what was typed while they were ticked still there.\<close>

definition stale_override_form :: form where
  "stale_override_form =
     \<lparr>numberInput = js ''3'', roomID = js '''', customMatchboxServerCheckbox = False,
      matchboxServerURL = js ''wss://old.example.org'', customICEServerCheckbox = False,
      iceServerURL = js ''turn:old.example.org'', iceServerUsername = js ''user'',
      iceServerCredential = js ''secret''\<rparr>"

text \<open>The shipped form with the number of players cleared.\<close>

definition blank_count_form :: form where
  "blank_count_form = default_form\<lparr>numberInput := js ''''\<rparr>"

text \<open>Nothing typed for the number of players, a room id with a letter in it, no box ticked.\<close>

definition blank_count_bad_room_form :: form where
  "blank_count_bad_room_form = default_form\<lparr>numberInput := js '''', roomID := js ''12a4''\<rparr>"

subsection \<open>The rules of the form as the specification words them\<close>

text \<open>
  A field is invalid when it breaks its rule: the player count is not an integer from 2
  to 8; the room id is neither blank nor four decimal digits; the signaling box is
  ticked and its URL is blank; the relay box is ticked and its URL is blank.
  \<open>spec_first_invalid\<close> is the message of the first invalid field in the order player
  count, room id, signaling, relay.
\<close>

definition spec_player_count_invalid :: "form \<Rightarrow> bool" where
  "spec_player_count_invalid f =
     (case parseInt (numberInput f) of NaN \<Rightarrow> True | Num p \<Rightarrow> p < 2 \<or> 8 < p)"

definition spec_room_id_invalid :: "form \<Rightarrow> bool" where
  "spec_room_id_invalid f \<longleftrightarrow>
     trim (roomID f) \<noteq> js '''' \<and> \<not> room_id_regex_test (roomID f)"

definition spec_signaling_invalid :: "form \<Rightarrow> bool" where
  "spec_signaling_invalid f \<longleftrightarrow>
     customMatchboxServerCheckbox f \<and> trim (matchboxServerURL f) = js ''''"

definition spec_relay_invalid :: "form \<Rightarrow> bool" where
  "spec_relay_invalid f \<longleftrightarrow> customICEServerCheckbox f \<and> trim (iceServerURL f) = js ''''"

definition spec_first_invalid :: "form \<Rightarrow> jsstring option" where
  "spec_first_invalid f =
     (if spec_player_count_invalid f
      then Some (js ''Please enter a player count between 2 and 8.'')
      else if spec_room_id_invalid f then Some (js ''Invalid room ID.'')
      else if spec_signaling_invalid f then Some (js ''Please enter a Matchbox server URL.'')
      else if spec_relay_invalid f then Some (js ''Please enter a STUN/TURN server URL.'')
      else None)"

section \<open>Properties\<close>

subsection \<open>Strings\<close>

lemma js_empty: "js '''' = []"
  by (simp add: js_def)




text \<open>\<open>js_includes\<close> is the substring relation.\<close>

lemma js_includes_sublist: "js_includes s t \<longleftrightarrow> sublist t s"
  by (induction s) (auto simp: sublist_Cons_right)

text \<open>A string trims to the empty string exactly when it is white space throughout.\<close>

lemma trim_eq_Nil: "trim s = [] \<longleftrightarrow> (\<forall>c\<in>set s. isWhiteSpace c)"
proof
  assume "trim s = []"
  then have "\<forall>c\<in>set (dropWhile isWhiteSpace s). isWhiteSpace c"
    by (simp add: trim_def dropWhile_eq_Nil_conv)
  then have "dropWhile isWhiteSpace s = []"
    using hd_dropWhile [of isWhiteSpace s] by (cases "dropWhile isWhiteSpace s") auto
  then show "\<forall>c\<in>set s. isWhiteSpace c"
    by (simp add: dropWhile_eq_Nil_conv)
next
  assume "\<forall>c\<in>set s. isWhiteSpace c"
  then show "trim s = []" by (auto simp: trim_def dest: set_dropWhileD)
qed

lemma digit_not_space: "isDecimalDigit c \<Longrightarrow> \<not> isWhiteSpace c"
  by (auto simp: isDecimalDigit_def isWhiteSpace_def word_le_nat_alt)

lemma four_digits_not_blank: "room_id_regex_test r \<Longrightarrow> trim r \<noteq> []"
proof -
  assume a: "room_id_regex_test r"
  then obtain c cs where r: "r = c # cs" by (cases r) (auto simp: room_id_regex_test_def)
  with a have "isDecimalDigit c" by (simp add: room_id_regex_test_def)
  then have "\<not> isWhiteSpace c" by (rule digit_not_space)
  with r show ?thesis by (auto simp: trim_eq_Nil)
qed

subsection \<open>The checks\<close>

lemma check_player_count_Num:
  "number_of_players v = Num p \<Longrightarrow>
   check_player_count v =
     (if 2 \<le> p \<and> p \<le> 8 then Inr v
      else Inl (js ''Please enter a player count between 2 and 8.''))"
  by (auto simp: check_player_count_def)

lemma check_player_count_NaN:
  "number_of_players v = NaN \<Longrightarrow> check_player_count v = Inr v"
  by (simp add: check_player_count_def)

lemma check_room_id_cases:
  "check_room_id v =
     (if trim (room_id v) = js '''' then Inr (v\<lparr>room_id := js ''quick_join''\<rparr>)
      else if room_id_regex_test (room_id v) then Inr v
      else Inl (js ''Invalid room ID.''))"
  by (simp add: check_room_id_def)

text \<open>What the locals hold when all four checks have passed.\<close>

lemma validate_Inr_fields:
  assumes "validate f = Inr v"
  shows "number_of_players v = parseInt (numberInput f)"
    and "room_id v = (if trim (roomID f) = js '''' then js ''quick_join'' else roomID f)"
    and "matchbox_server_url v =
           (if customMatchboxServerCheckbox f then matchboxServerURL f else js '''')"
    and "ice_server_url v = (if customICEServerCheckbox f then iceServerURL f else js '''')"
    and "turn_server_username v =
           (if customICEServerCheckbox f then iceServerUsername f else js '''')"
    and "turn_server_credential v =
           (if customICEServerCheckbox f then iceServerCredential f else js '''')"
  using assms
  by (auto simp: validate_def check_player_count_def check_room_id_def
        check_matchbox_def check_ice_def read_inputs_def Let_def
      split: if_splits sum.splits)

text \<open>A number of players that has passed the checks is NaN or lies between 2 and 8.\<close>

lemma validate_player_count_range:
  assumes "validate f = Inr v"
  shows "number_of_players v = NaN \<or> (\<exists>p. number_of_players v = Num p \<and> 2 \<le> p \<and> p \<le> 8)"
proof (cases "parseInt (numberInput f)")
  case NaN
  then show ?thesis using validate_Inr_fields(1) [OF assms] by simp
next
  case (Num p)
  then have "number_of_players (read_inputs f) = Num p" by (simp add: read_inputs_def)
  from check_player_count_Num [OF this] assms have "2 \<le> p \<and> p \<le> 8"
    by (auto simp: validate_def split: if_splits)
  then show ?thesis using validate_Inr_fields(1) [OF assms] Num by simp
qed

text \<open>
  When the player count reads as a number, the script alerts exactly for the first
  invalid field, and passes when no field is invalid.
\<close>

lemma fail_fast_when_count_is_number:
  assumes "parseInt (numberInput f) = Num p"
  shows "validate f = Inl m \<longleftrightarrow> spec_first_invalid f = Some m"
    and "(\<exists>v. validate f = Inr v) \<longleftrightarrow> spec_first_invalid f = None"
  using assms
  by (auto simp: spec_first_invalid_def spec_player_count_invalid_def spec_room_id_invalid_def
        spec_signaling_invalid_def spec_relay_invalid_def validate_def check_player_count_def
        check_room_id_def check_matchbox_def check_ice_def read_inputs_def Let_def
      split: if_splits sum.splits)

text \<open>The signaling and the relay field as the first invalid one.\<close>

lemma fail_fast_signaling_first:
  "spec_first_invalid (all_invalid_form\<lparr>numberInput := js ''5'', roomID := js ''''\<rparr>) =
     Some (js ''Please enter a Matchbox server URL.'') \<and>
   validate (all_invalid_form\<lparr>numberInput := js ''5'', roomID := js ''''\<rparr>) =
     Inl (js ''Please enter a Matchbox server URL.'')"
  by code_simp

lemma fail_fast_relay_first:
  "spec_first_invalid (padded_urls_form\<lparr>iceServerURL := js ''  ''\<rparr>) =
     Some (js ''Please enter a STUN/TURN server URL.'') \<and>
   validate (padded_urls_form\<lparr>iceServerURL := js ''  ''\<rparr>) =
     Inl (js ''Please enter a STUN/TURN server URL.'')"
  by code_simp

text \<open>
  An exception object with a string message, on a page with the lobby and the game
  container in the document: swallowed when the message contains the control-flow text,
  logged and turned into the error screen otherwise.
\<close>

lemma start_wasm_error_object:
  "(js_includes m benign_message \<longrightarrow>
      start_wasm (Some (Error_object m)) b = (None, b\<lparr>wasm_loaded := True\<rparr>)) \<and>
   (\<not> js_includes m benign_message \<and> button_box b \<noteq> None \<and> game_container b \<longrightarrow>
      start_wasm (Some (Error_object m)) b =
        (None, b\<lparr>wasm_loaded := True, console_error := console_error b @ [Error_object m],
                 button_box := None, game_container := False, controls := False,
                 error_screen_hidden := False\<rparr>))"
  by (auto simp: start_wasm_def Let_def)

lemma start_wasm_error_object_examples:
  "start_wasm (Some (Error_object (js ''Using exceptions for control flow, don't mind me. This isn't actually an error!'')))
     (initial_page default_form) = (None, (initial_page default_form)\<lparr>wasm_loaded := True\<rparr>) \<and>
   start_wasm (Some (Error_object (js ''unreachable''))) (initial_page default_form) =
     (None, (initial_page default_form)
        \<lparr>wasm_loaded := True, console_error := [Error_object (js ''unreachable'')],
         button_box := None, game_container := False, controls := False,
         error_screen_hidden := False\<rparr>)"
  by code_simp

text \<open>
  With the lobby, the game container and the controls in the document, the second half
  of \<^verbatim>\<open>startGame\<close> throws nothing and ends in the call of \<^verbatim>\<open>start_game\<close>.
\<close>

lemma launch_ok:
  assumes "button_box b \<noteq> None" and "game_container b" and "controls b"
  shows "fst (launch d v b) = None"
    and "start_game_calls (snd (launch d v b)) = start_game_calls b @ [start_game_args v]"
    and "button_box (snd (launch d v b)) = None"
    and "\<not> game_container_hidden (snd (launch d v b))"
    and "alerts (snd (launch d v b)) = alerts b"
  using assms by (auto simp: launch_def enter_game_def log_settings_def Let_def)

text \<open>Whatever the page, \<^verbatim>\<open>startGame\<close> calls \<^verbatim>\<open>start_game\<close> at most once, with the validated locals.\<close>

lemma startGame_calls:
  "start_game_calls (snd (startGame d b)) = start_game_calls b \<or>
   (\<exists>f v. button_box b = Some f \<and> validate f = Inr v \<and>
      start_game_calls (snd (startGame d b)) = start_game_calls b @ [start_game_args v])"
  by (auto simp: startGame_def launch_def enter_game_def log_settings_def Let_def
      split: option.splits sum.splits)

lemma start_game_args_length: "length (start_game_args v) = 6"
  by (simp add: start_game_args_def)

section \<open>The specified behaviour\<close>

text \<open>
  C1. After a successful validation the script hands \<^verbatim>\<open>start_game\<close> six positional values
  (player count, room id, signaling URL, relay URL, relay username, relay credential),
  and this is to agree with the arity and parameter order that \<^verbatim>\<open>start_game\<close> is
  declared with. It does not: with the form as shipped, the call has the six values, a
  number followed by five strings, while the declaration in ascii_bomb_ecs_lib.d.ts has
  two parameters, a string followed by a number.
\<close>

theorem start_game_call_against_declaration:
  "start_game_calls (snd (startGame desktop (initial_page default_form))) =
     [[VNum (Num 2), VStr (js ''quick_join''), VStr (js ''''), VStr (js ''''), VStr (js ''''),
       VStr (js '''')]] \<and>
   map type_of_value
     [VNum (Num 2), VStr (js ''quick_join''), VStr (js ''''), VStr (js ''''), VStr (js ''''),
      VStr (js '''')] =
     [TS_number, TS_string, TS_string, TS_string, TS_string, TS_string] \<and>
   map snd start_game_declared = [TS_string, TS_number] \<and>
   \<not> call_matches_declaration
     [VNum (Num 2), VStr (js ''quick_join''), VStr (js ''''), VStr (js ''''), VStr (js ''''),
      VStr (js '''')]"
  by code_simp

text \<open>
  C2. When the player-count input reads as the integer \<open>p\<close>, the player-count check
  passes if and only if \<open>2 \<le> p \<le> 8\<close>; when it fails, \<^verbatim>\<open>startGame\<close> alerts
  "Please enter a player count between 2 and 8." and returns, leaving everything else as
  it was.
\<close>

theorem player_count_validation:
  assumes "button_box b = Some f" and "parseInt (numberInput f) = Num p"
  shows "(check_player_count (read_inputs f) = Inr (read_inputs f) \<longleftrightarrow> 2 \<le> p \<and> p \<le> 8) \<and>
         (\<not> (2 \<le> p \<and> p \<le> 8) \<longrightarrow>
            check_player_count (read_inputs f) =
              Inl (js ''Please enter a player count between 2 and 8.'') \<and>
            startGame d b =
              (None, b\<lparr>alerts := alerts b @
                         [js ''Please enter a player count between 2 and 8.'']\<rparr>))"
proof -
  have n: "number_of_players (read_inputs f) = Num p"
    using assms(2) by (simp add: read_inputs_def)
  show ?thesis
    using assms(1) check_player_count_Num [OF n]
    by (simp add: startGame_def validate_def)
qed

theorem player_count_validation_witness:
  "startGame desktop (initial_page (default_form\<lparr>numberInput := js ''9''\<rparr>)) =
     (None, (initial_page (default_form\<lparr>numberInput := js ''9''\<rparr>))
        \<lparr>alerts := [js ''Please enter a player count between 2 and 8.'']\<rparr>) \<and>
   check_player_count (read_inputs default_form) = Inr (read_inputs default_form)"
proof -
  have p9: "parseInt (numberInput (default_form\<lparr>numberInput := js ''9''\<rparr>)) = Num 9"
    by code_simp
  have p2: "parseInt (numberInput default_form) = Num 2"
    by code_simp
  have b9: "button_box (initial_page (default_form\<lparr>numberInput := js ''9''\<rparr>)) =
      Some (default_form\<lparr>numberInput := js ''9''\<rparr>)"
    by (simp add: initial_page_def)
  have b2: "button_box (initial_page default_form) = Some default_form"
    by (simp add: initial_page_def)
  show ?thesis
    using player_count_validation [OF b9 p9, of desktop] player_count_validation [OF b2 p2]
    by (simp add: initial_page_def)
qed

text \<open>
  C3. Whatever the raw player-count string, a player count that reaches \<^verbatim>\<open>start_game\<close>
  is to be an integer from 2 to 8. The script does not keep this: with the number input
  cleared, \<^verbatim>\<open>parseInt\<close> gives NaN, both comparisons of line 159 are false, the four
  checks pass and \<^verbatim>\<open>start_game\<close> is called with NaN as the player count.
\<close>

theorem blank_player_count_reaches_start_game:
  "validate blank_count_form =
     Inr \<lparr>number_of_players = NaN, room_id = js ''quick_join'',
          use_custom_matchbox_server_settings = False, matchbox_server_url = js '''',
          use_custom_ice_server_settings = False, ice_server_url = js '''',
          turn_server_username = js '''', turn_server_credential = js ''''\<rparr> \<and>
   start_game_calls (snd (startGame desktop (initial_page blank_count_form))) =
     [[VNum NaN, VStr (js ''quick_join''), VStr (js ''''), VStr (js ''''), VStr (js ''''),
       VStr (js '''')]]"
  by code_simp

text \<open>
  C4. The room-id check passes if and only if the room id is blank after trimming or is
  exactly four decimal digits. A blank room id becomes \<^verbatim>\<open>quick_join\<close>, four digits are
  kept as they are, and anything else is refused with "Invalid room ID.".
\<close>

theorem room_id_validation:
  "((\<exists>v'. check_room_id v = Inr v') \<longleftrightarrow>
      trim (room_id v) = js '''' \<or> room_id_regex_test (room_id v)) \<and>
   (trim (room_id v) = js '''' \<longrightarrow> check_room_id v = Inr (v\<lparr>room_id := js ''quick_join''\<rparr>)) \<and>
   (room_id_regex_test (room_id v) \<longrightarrow> check_room_id v = Inr v) \<and>
   (trim (room_id v) \<noteq> js '''' \<and> \<not> room_id_regex_test (room_id v) \<longrightarrow>
      check_room_id v = Inl (js ''Invalid room ID.''))"
  using four_digits_not_blank [of "room_id v"]
  by (auto simp: check_room_id_cases js_empty)

theorem room_id_validation_witness:
  "check_room_id (read_inputs default_form) =
     Inr ((read_inputs default_form)\<lparr>room_id := js ''quick_join''\<rparr>) \<and>
   check_room_id (read_inputs padded_urls_form) = Inr (read_inputs padded_urls_form) \<and>
   check_room_id (read_inputs all_invalid_form) = Inl (js ''Invalid room ID.'')"
proof -
  have 1: "trim (room_id (read_inputs default_form)) = js ''''" by code_simp
  have 2: "room_id_regex_test (room_id (read_inputs padded_urls_form))" by code_simp
  have 3: "trim (room_id (read_inputs all_invalid_form)) \<noteq> js '''' \<and>
           \<not> room_id_regex_test (room_id (read_inputs all_invalid_form))" by code_simp
  show ?thesis
    using room_id_validation [of "read_inputs default_form"]
      room_id_validation [of "read_inputs padded_urls_form"]
      room_id_validation [of "read_inputs all_invalid_form"] 1 2 3
    by blast
qed

text \<open>
  C5. When \<^verbatim>\<open>run()\<close> throws an exception whose message contains "This isn't actually an
  error!", \<^verbatim>\<open>start_wasm\<close> is to swallow it, and when it throws anything else, to log it,
  remove the lobby and the game container and show the error screen. For exception
  objects with a string message the script does so (\<open>start_wasm_error_object\<close>). It
  does not for a thrown value without one, such as a thrown string: line 12 reads
  \<^verbatim>\<open>e.message.includes\<close> on it and throws a \<^verbatim>\<open>TypeError\<close> inside the handler, so on
  the page as loaded nothing is logged, the lobby and the game container stay and the
  error screen stays hidden.
\<close>

theorem thrown_value_without_message_escapes:
  "start_wasm (Some No_message) (initial_page default_form) =
     (Some TypeError, (initial_page default_form)\<lparr>wasm_loaded := True\<rparr>) \<and>
   console_error (snd (start_wasm (Some No_message) (initial_page default_form))) = [] \<and>
   button_box (snd (start_wasm (Some No_message) (initial_page default_form))) =
     Some default_form \<and>
   game_container (snd (start_wasm (Some No_message) (initial_page default_form))) \<and>
   error_screen_hidden (snd (start_wasm (Some No_message) (initial_page default_form)))"
  by code_simp

text \<open>
  C6. When a check fails, \<^verbatim>\<open>startGame\<close> does nothing but alert: the page is as it was,
  with the lobby in the document and the game container as hidden as before, and
  \<^verbatim>\<open>start_game\<close> is not called.
\<close>

theorem failed_validation_changes_nothing:
  assumes "button_box b = Some f" and "validate f = Inl m"
  shows "startGame d b = (None, b\<lparr>alerts := alerts b @ [m]\<rparr>) \<and>
         start_game_calls (snd (startGame d b)) = start_game_calls b \<and>
         button_box (snd (startGame d b)) = Some f \<and>
         game_container_hidden (snd (startGame d b)) = game_container_hidden b"
  using assms by (simp add: startGame_def)

theorem failed_validation_changes_nothing_witness:
  "startGame desktop (initial_page all_invalid_form) =
     (None, (initial_page all_invalid_form)
        \<lparr>alerts := [js ''Please enter a player count between 2 and 8.'']\<rparr>) \<and>
   start_game_calls (snd (startGame desktop (initial_page all_invalid_form))) = [] \<and>
   button_box (snd (startGame desktop (initial_page all_invalid_form))) = Some all_invalid_form \<and>
   game_container_hidden (snd (startGame desktop (initial_page all_invalid_form)))"
proof -
  have 1: "button_box (initial_page all_invalid_form) = Some all_invalid_form"
    by (simp add: initial_page_def)
  have 2: "validate all_invalid_form = Inl (js ''Please enter a player count between 2 and 8.'')"
    by code_simp
  show ?thesis
    using failed_validation_changes_nothing [OF 1 2, of desktop] by (simp add: initial_page_def)
qed

text \<open>
  C7. When several fields are invalid at once, \<^verbatim>\<open>startGame\<close> is to report exactly one
  error, that of the first invalid field in the order player count, room id, signaling
  override, relay override. When the player count reads as a number the script does so
  (\<open>fail_fast_when_count_is_number\<close>). It does not when the player count is not a
  number: with the number input cleared and the room id \<^verbatim>\<open>12a4\<close>, the player count is
  the first invalid field, the check of line 159 lets NaN through, and the one alert is
  "Invalid room ID.".
\<close>

theorem blank_count_reports_room_id:
  "spec_player_count_invalid blank_count_bad_room_form \<and>
   spec_room_id_invalid blank_count_bad_room_form \<and>
   spec_first_invalid blank_count_bad_room_form =
     Some (js ''Please enter a player count between 2 and 8.'') \<and>
   validate blank_count_bad_room_form = Inl (js ''Invalid room ID.'') \<and>
   startGame desktop (initial_page blank_count_bad_room_form) =
     (None, (initial_page blank_count_bad_room_form)\<lparr>alerts := [js ''Invalid room ID.'']\<rparr>)"
  by code_simp



text \<open>
  C9. With the relay box ticked and the relay URL blank after trimming, the relay check
  alerts "Please enter a STUN/TURN server URL." whatever the username and the credential
  are. With the box ticked and the URL not blank, the username and the credential go
  into the configuration as they are, blank or not. With the box unticked the check
  passes and the three relay fields of the configuration are the empty string.
\<close>

theorem relay_override:
  "(use_custom_ice_server_settings v \<and> trim (iceServerURL f) = js '''' \<longrightarrow>
      check_ice f v = Inl (js ''Please enter a STUN/TURN server URL.'')) \<and>
   (use_custom_ice_server_settings v \<and> trim (iceServerURL f) \<noteq> js '''' \<longrightarrow>
      check_ice f v =
        Inr (v\<lparr>ice_server_url := iceServerURL f,
                turn_server_username := iceServerUsername f,
                turn_server_credential := iceServerCredential f\<rparr>)) \<and>
   (\<not> use_custom_ice_server_settings v \<longrightarrow> check_ice f v = Inr v) \<and>
   (\<forall>c. validate f = Inr c \<longrightarrow>
      (customICEServerCheckbox f \<longrightarrow>
         trim (iceServerURL f) \<noteq> js '''' \<and>
         turn_server_username c = iceServerUsername f \<and>
         turn_server_credential c = iceServerCredential f) \<and>
      (\<not> customICEServerCheckbox f \<longrightarrow>
         ice_server_url c = js '''' \<and> turn_server_username c = js '''' \<and>
         turn_server_credential c = js ''''))"
proof -
  have "trim (iceServerURL f) \<noteq> js ''''"
    if "validate f = Inr c" and "customICEServerCheckbox f" for c
    using that
    by (auto simp: validate_def check_player_count_def check_room_id_def
          check_matchbox_def check_ice_def read_inputs_def Let_def
        split: if_splits sum.splits)
  then show ?thesis
    using validate_Inr_fields(4,5,6) [of f]
    by (auto simp: check_ice_def Let_def)
qed

theorem relay_override_witness:
  "check_ice all_invalid_form (read_inputs all_invalid_form) =
     Inl (js ''Please enter a STUN/TURN server URL.'') \<and>
   check_ice padded_urls_form (read_inputs padded_urls_form) =
     Inr ((read_inputs padded_urls_form)
            \<lparr>ice_server_url := js '' turn:relay.example.org:3478 '',
             turn_server_username := js '''', turn_server_credential := js ''''\<rparr>) \<and>
   check_ice stale_override_form (read_inputs stale_override_form) =
     Inr (read_inputs stale_override_form)"
proof -
  have 1: "use_custom_ice_server_settings (read_inputs all_invalid_form) \<and>
           trim (iceServerURL all_invalid_form) = js ''''"
    by code_simp
  have 2: "use_custom_ice_server_settings (read_inputs padded_urls_form) \<and>
           trim (iceServerURL padded_urls_form) \<noteq> js ''''"
    by code_simp
  have 3: "\<not> use_custom_ice_server_settings (read_inputs stale_override_form)"
    by code_simp
  have 4: "iceServerURL padded_urls_form = js '' turn:relay.example.org:3478 '' \<and>
           iceServerUsername padded_urls_form = js '''' \<and>
           iceServerCredential padded_urls_form = js ''''"
    by (simp add: padded_urls_form_def)
  show ?thesis
    using relay_override [of "read_inputs all_invalid_form" all_invalid_form]
      relay_override [of "read_inputs padded_urls_form" padded_urls_form]
      relay_override [of "read_inputs stale_override_form" stale_override_form] 1 2 3 4
    by simp
qed

text \<open>
  C10. When the checks pass with a box ticked, the URL that goes into the configuration
  and on to \<^verbatim>\<open>start_game\<close> is the field as typed: trimming only decides whether the
  field is blank, so a URL with white space around it passes and is forwarded with the
  white space.
\<close>

theorem override_urls_verbatim:
  assumes "button_box b = Some f" and "validate f = Inr v"
    and "game_container b" and "controls b"
  shows "(customMatchboxServerCheckbox f \<longrightarrow> matchbox_server_url v = matchboxServerURL f) \<and>
         (customICEServerCheckbox f \<longrightarrow> ice_server_url v = iceServerURL f) \<and>
         start_game_calls (snd (startGame d b)) =
           start_game_calls b @
             [[VNum (number_of_players v), VStr (room_id v), VStr (matchbox_server_url v),
               VStr (ice_server_url v), VStr (turn_server_username v),
               VStr (turn_server_credential v)]]"
proof -
  have "button_box b \<noteq> None" using assms(1) by simp
  from launch_ok(2) [OF this assms(3,4)] assms(1,2)
  have "start_game_calls (snd (startGame d b)) = start_game_calls b @ [start_game_args v]"
    by (simp add: startGame_def)
  then show ?thesis
    using validate_Inr_fields(3,4) [OF assms(2)] by (simp add: start_game_args_def)
qed

theorem override_urls_verbatim_witness:
  "start_game_calls (snd (startGame desktop (initial_page padded_urls_form))) =
     [[VNum (Num 4), VStr (js ''0042''), VStr (js '' wss://match.example.org ''),
       VStr (js '' turn:relay.example.org:3478 ''), VStr (js ''''), VStr (js '''')]]"
proof -
  have 1: "button_box (initial_page padded_urls_form) = Some padded_urls_form"
    by (simp add: initial_page_def)
  have 2: "validate padded_urls_form =
     Inr \<lparr>number_of_players = Num 4, room_id = js ''0042'',
          use_custom_matchbox_server_settings = True,
          matchbox_server_url = js '' wss://match.example.org '',
          use_custom_ice_server_settings = True,
          ice_server_url = js '' turn:relay.example.org:3478 '',
          turn_server_username = js '''', turn_server_credential = js ''''\<rparr>"
    by code_simp
  have 3: "game_container (initial_page padded_urls_form)"
    by (simp add: initial_page_def)
  have 4: "controls (initial_page padded_urls_form)"
    by (simp add: initial_page_def)
  show ?thesis
    using override_urls_verbatim [OF 1 2 3 4, of desktop] by (simp add: initial_page_def)
qed

end
